theory Spec2Isabelle
  imports Main
begin

section \<open>The retrying HTTP transport of httpRetry\<close>

text \<open>
  The development embeds the Go package \<open>transport\<close> (the retry loop \<open>RoundTrip\<close>, with
  \<open>setupRewindBody\<close>, \<open>rewindBody\<close>, \<open>drainBody\<close> and \<open>readTrackingBody\<close>) and the default
  retry predicate \<open>shouldRetry\<close> of package \<open>http\<close>.

  Pointers are addresses into an explicit store, because the loop relies on sharing: the
  request copy made for an attempt and the request it was copied from point to the same body
  wrapper, and the flags the inner transport sets through one are read through the other.
  Calls to \<open>slog\<close> have no effect on any value of the program and are left out.

  The collaborators are parameters. The inner transport is a function on the store, which
  may do to it whatever it likes; the retry predicate may panic, as the default one does;
  the backoff is a function of the attempt number. The example program's \<open>main\<close>, and
  \<open>NewClient\<close> with its randomised backoff, take no part in what is proved here.
\<close>

subsection \<open>Errors and panics\<close>

text \<open>
  A Go \<open>error\<close> value is either \<open>io.EOF\<close> or some other error, known by its message.
  A run-time panic (a nil pointer dereference, a failed type assertion) is a value of its
  own: a function that can panic returns \<open>panic + 'a\<close>.
\<close>

datatype error = EOF | Err string

datatype panic = NilPointerDereference | InterfaceConversion

subsection \<open>Byte streams\<close>

type_synonym bytes = string

text \<open>
  The state of an \<open>io.ReadCloser\<close> object that is not a \<open>readTrackingBody\<close>: the bytes not
  yet read, the failure (if any) that \<open>Read\<close> reports in place of \<open>io.EOF\<close> once those bytes
  are exhausted, the value \<open>Close\<close> returns, and how many times \<open>Close\<close> has been called.
  Closing does not stop a stream from being read, as for \<open>io.NopCloser(bytes.NewReader(b))\<close>.
\<close>

record stream =
  unread :: bytes
  readErr :: "string option"
  closeErr :: "error option"
  closes :: nat

definition bytes_NewReader :: "bytes \<Rightarrow> stream" where
  "bytes_NewReader buf = \<lparr>unread = buf, readErr = None, closeErr = None, closes = 0\<rparr>"

definition stream_end :: "stream \<Rightarrow> error" where
  "stream_end s = (case readErr s of None \<Rightarrow> EOF | Some m \<Rightarrow> Err m)"

text \<open>\<open>Read(data)\<close> with \<open>len(data) = n\<close>: the bytes delivered and the error returned.\<close>

definition stream_Read :: "nat \<Rightarrow> stream \<Rightarrow> (bytes \<times> error option) \<times> stream" where
  "stream_Read n s =
     (if unread s = [] then (([], Some (stream_end s)), s)
      else ((take n (unread s), None), s\<lparr>unread := drop n (unread s)\<rparr>))"

text \<open>
  \<open>io.ReadAll\<close> calls \<open>Read\<close> until it reports an error; \<open>io.EOF\<close> is success. It returns
  the bytes read up to there.
\<close>

definition stream_ReadAll :: "stream \<Rightarrow> (bytes \<times> error option) \<times> stream" where
  "stream_ReadAll s =
     ((unread s, (case readErr s of None \<Rightarrow> None | Some m \<Rightarrow> Some (Err m))),
      s\<lparr>unread := []\<rparr>)"

definition stream_Close :: "stream \<Rightarrow> error option \<times> stream" where
  "stream_Close s = (closeErr s, s\<lparr>closes := Suc (closes s)\<rparr>)"

text \<open>
  A non-nil \<open>io.ReadCloser\<close> interface value: \<open>http.NoBody\<close>, a pointer to a stream object,
  or a pointer to a \<open>readTrackingBody\<close>. The field \<open>ReadCloser\<close> of a \<open>readTrackingBody\<close> is
  set when the struct is built and never assigned again, so the pointer carries it; the
  two flags are mutable and live in the store, at the address the pointer names.
\<close>

datatype readcloser = NoBody | Plain nat | readTrackingBody readcloser nat

record flags =
  didRead :: bool
  didClose :: bool

subsection \<open>Requests, responses and the store\<close>

text \<open>
  \<open>ctx\<close> stands for the request's \<open>context.Context\<close> as the loop uses it: \<open>ctx k d\<close> tells
  how the \<open>select\<close> after attempt \<open>k\<close>, with timer \<open>d\<close>, is resolved. \<open>Some e\<close>: the
  \<open>ctx.Done()\<close> case is taken and \<open>ctx.Err()\<close> is \<open>e\<close>; \<open>None\<close>: the timer case is taken.

  \<open>GetBody\<close> is the caller's factory, when there is one: it fails with an error, or returns
  a new reader in the given state.
\<close>

type_synonym Context = "int \<Rightarrow> int \<Rightarrow> error option"

record Request =
  Method :: string
  URL :: string
  Body :: "readcloser option"
  GetBody :: "(error + stream) option"
  ctx :: Context

record Response =
  StatusCode :: int
  ResBody :: "readcloser option"

text \<open>
  The store: stream objects, the flags of \<open>readTrackingBody\<close> objects, request structs, each
  with the next free address, and the private state of the inner transport.
\<close>

record 'i world =
  streams :: "nat \<Rightarrow> stream"
  nextStream :: nat
  tracked :: "nat \<Rightarrow> flags"
  nextTracked :: nat
  requests :: "nat \<Rightarrow> Request"
  nextRequest :: nat
  istate :: 'i

definition new_stream :: "stream \<Rightarrow> 'i world \<Rightarrow> nat \<times> 'i world" where
  "new_stream s w =
     (nextStream w,
      w\<lparr>streams := (streams w)(nextStream w := s), nextStream := Suc (nextStream w)\<rparr>)"

text \<open>\<open>&readTrackingBody{ReadCloser: rc}\<close>: both flags start false.\<close>

definition new_readTrackingBody :: "readcloser \<Rightarrow> 'i world \<Rightarrow> readcloser \<times> 'i world" where
  "new_readTrackingBody rc w =
     (readTrackingBody rc (nextTracked w),
      w\<lparr>tracked := (tracked w)(nextTracked w := \<lparr>didRead = False, didClose = False\<rparr>),
        nextTracked := Suc (nextTracked w)\<rparr>)"

text \<open>\<open>&newReq\<close>: the address of a local struct that escapes is a new object.\<close>

definition new_Request :: "Request \<Rightarrow> 'i world \<Rightarrow> nat \<times> 'i world" where
  "new_Request r w =
     (nextRequest w,
      w\<lparr>requests := (requests w)(nextRequest w := r), nextRequest := Suc (nextRequest w)\<rparr>)"

subsection \<open>Reading and closing through the interface\<close>

definition set_didRead :: "nat \<Rightarrow> 'i world \<Rightarrow> 'i world" where
  "set_didRead c w = w\<lparr>tracked := (tracked w)(c := (tracked w c)\<lparr>didRead := True\<rparr>)\<rparr>"

definition set_didClose :: "nat \<Rightarrow> 'i world \<Rightarrow> 'i world" where
  "set_didClose c w = w\<lparr>tracked := (tracked w)(c := (tracked w c)\<lparr>didClose := True\<rparr>)\<rparr>"

text \<open>
  \<open>Read\<close> and \<open>Close\<close> dispatch on the dynamic type. For a \<open>readTrackingBody\<close> they are the
  two methods of the source: set the flag, then call the embedded \<open>ReadCloser\<close>.
\<close>

fun Read :: "readcloser \<Rightarrow> nat \<Rightarrow> 'i world \<Rightarrow> (bytes \<times> error option) \<times> 'i world" where
  "Read NoBody n w = (([], Some EOF), w)"
| "Read (Plain a) n w =
     (case stream_Read n (streams w a) of
        (r, s) \<Rightarrow> (r, w\<lparr>streams := (streams w)(a := s)\<rparr>))"
| "Read (readTrackingBody rc c) n w = Read rc n (set_didRead c w)"

fun Close :: "readcloser \<Rightarrow> 'i world \<Rightarrow> error option \<times> 'i world" where
  "Close NoBody w = (None, w)"
| "Close (Plain a) w =
     (case stream_Close (streams w a) of
        (e, s) \<Rightarrow> (e, w\<lparr>streams := (streams w)(a := s)\<rparr>))"
| "Close (readTrackingBody rc c) w = Close rc (set_didClose c w)"

text \<open>
  \<open>io.ReadAll(r)\<close> calls \<open>r.Read\<close> at least once and until it reports an error, so through a
  \<open>readTrackingBody\<close> it sets \<open>didRead\<close> and reads the embedded stream to its end.
\<close>

fun ReadAll :: "readcloser \<Rightarrow> 'i world \<Rightarrow> (bytes \<times> error option) \<times> 'i world" where
  "ReadAll NoBody w = (([], None), w)"
| "ReadAll (Plain a) w =
     (case stream_ReadAll (streams w a) of
        (r, s) \<Rightarrow> (r, w\<lparr>streams := (streams w)(a := s)\<rparr>))"
| "ReadAll (readTrackingBody rc c) w = ReadAll rc (set_didRead c w)"

text \<open>\<open>io.Copy(io.Discard, r)\<close> reads \<open>r\<close> the same way and drops the bytes.\<close>

definition Copy_Discard :: "readcloser \<Rightarrow> 'i world \<Rightarrow> error option \<times> 'i world" where
  "Copy_Discard rc w = (case ReadAll rc w of ((buf, e), w') \<Rightarrow> (e, w'))"

subsection \<open>The transport\<close>

type_synonym 'i RoundTripper =
  "nat option \<Rightarrow> 'i world \<Rightarrow> (Response option \<times> error option) \<times> 'i world"

type_synonym CheckRetryFunc = "Response option \<Rightarrow> error option \<Rightarrow> panic + bool"

type_synonym BackoffFunc = "int \<Rightarrow> int"

record 'i RetryableTransport =
  wrapped :: "'i RoundTripper option"
  maxAttempts :: int
  checkRetry :: CheckRetryFunc
  backoff :: BackoffFunc

definition NewRetryableTransport ::
  "'i RoundTripper option \<Rightarrow> int \<Rightarrow> CheckRetryFunc \<Rightarrow> BackoffFunc \<Rightarrow> 'i RetryableTransport" where
  "NewRetryableTransport rt maxRetryCounts check bo =
     \<lparr>wrapped = rt, maxAttempts = maxRetryCounts, checkRetry = check, backoff = bo\<rparr>"

text \<open>\<open>drainBody\<close>: \<open>res.Body\<close> dereferences \<open>res\<close>, which panics when \<open>res\<close> is nil.\<close>

definition drainBody :: "Response option \<Rightarrow> 'i world \<Rightarrow> (panic + error option) \<times> 'i world" where
  "drainBody res w =
     (case res of
        None \<Rightarrow> (Inl NilPointerDereference, w)
      | Some r \<Rightarrow>
          (case ResBody r of
             None \<Rightarrow> (Inr None, w)
           | Some b \<Rightarrow>
               (case Copy_Discard b w of
                  (Some err, w1) \<Rightarrow> (Inr (Some err), w1)
                | (None, w1) \<Rightarrow>
                    (case Close b w1 of
                       (Some err, w2) \<Rightarrow> (Inr (Some err), w2)
                     | (None, w2) \<Rightarrow> (Inr None, w2)))))"

definition setupRewindBody :: "nat \<Rightarrow> 'i world \<Rightarrow> nat \<times> 'i world" where
  "setupRewindBody req w =
     (case Body (requests w req) of
        None \<Rightarrow> (req, w)
      | Some NoBody \<Rightarrow> (req, w)
      | Some b \<Rightarrow>
          (case new_readTrackingBody b w of
             (tb, w1) \<Rightarrow> new_Request ((requests w req)\<lparr>Body := Some tb\<rparr>) w1))"

text \<open>
  \<open>rewindBody\<close> returns the pair \<open>(rewoundBody, err)\<close>. The type assertion
  \<open>req.Body.(*readTrackingBody)\<close> panics on a body of another dynamic type.
  \<open>wrapRewound\<close> is its last three statements: copy the request struct, give the copy a new
  \<open>readTrackingBody\<close> around \<open>body\<close>, return the address of the copy and a nil error.
\<close>

definition wrapRewound :: "nat \<Rightarrow> readcloser \<Rightarrow> 'i world \<Rightarrow> (nat option \<times> error option) \<times> 'i world" where
  "wrapRewound req body w =
     (case new_readTrackingBody body w of
        (tb, w1) \<Rightarrow>
          (case new_Request ((requests w1 req)\<lparr>Body := Some tb\<rparr>) w1 of
             (newReq, w2) \<Rightarrow> ((Some newReq, None), w2)))"

definition rewindBody ::
  "nat \<Rightarrow> 'i world \<Rightarrow> (panic + nat option \<times> error option) \<times> 'i world" where
  "rewindBody req w =
     (case Body (requests w req) of
        None \<Rightarrow> (Inr (Some req, None), w)
      | Some NoBody \<Rightarrow> (Inr (Some req, None), w)
      | Some (Plain a) \<Rightarrow> (Inl InterfaceConversion, w)
      | Some (readTrackingBody rc c) \<Rightarrow>
          if \<not> didRead (tracked w c) \<and> \<not> didClose (tracked w c) then (Inr (Some req, None), w)
          else
            (case (if \<not> didClose (tracked w c) then Close (readTrackingBody rc c) w
                   else (None, w)) of
               (Some err, w1) \<Rightarrow> (Inr (None, Some err), w1)
             | (None, w1) \<Rightarrow>
                 (case GetBody (requests w1 req) of
                    Some (Inl err) \<Rightarrow> (Inr (None, Some err), w1)
                  | Some (Inr s) \<Rightarrow>
                      (case new_stream s w1 of
                         (a, w2) \<Rightarrow>
                           (case wrapRewound req (Plain a) w2 of (r, w3) \<Rightarrow> (Inr r, w3)))
                  | None \<Rightarrow>
                      (case ReadAll (readTrackingBody rc c) w1 of
                         ((buf, Some err), w2) \<Rightarrow> (Inr (None, Some err), w2)
                       | ((buf, None), w2) \<Rightarrow>
                           (case new_stream (bytes_NewReader buf) w2 of
                              (a, w3) \<Rightarrow>
                                (case wrapRewound req (Plain a) w3 of
                                   (r, w4) \<Rightarrow> (Inr r, w4)))))))"

text \<open>\<open>transport\<close>: the wrapped transport, or \<open>http.DefaultTransport\<close> (here \<open>dt\<close>) without one.\<close>

definition transport :: "'i RoundTripper \<Rightarrow> 'i RetryableTransport \<Rightarrow> 'i RoundTripper" where
  "transport dt t = (case wrapped t of None \<Rightarrow> dt | Some rt \<Rightarrow> rt)"

text \<open>
  What a call of \<open>RoundTrip\<close> yields: the pair it returns or a panic, the store it leaves,
  and the log of the request pointers it passed to the inner transport, in order.
\<close>

datatype result = Returned "Response option" "error option" | Panicked panic

text \<open>
  The \<open>for\<close> loop of \<open>RoundTrip\<close>. \<open>attempts\<close> is the counter before \<open>attempts++\<close>. The error
  of \<open>rewindBody\<close> is assigned to \<open>err\<close> and overwritten by the send that follows.
  Go's 64-bit \<open>int\<close> is modelled by \<open>int\<close>: the counter starts at 0 and grows by one for each
  send, so it would take \<open>2^63\<close> sends of one call to make it wrap.
\<close>

function RoundTrip_loop ::
  "'i RoundTripper \<Rightarrow> 'i RetryableTransport \<Rightarrow> Context \<Rightarrow> nat \<Rightarrow> int \<Rightarrow> 'i world \<Rightarrow>
   nat option list \<Rightarrow> result \<times> 'i world \<times> nat option list" where
  "RoundTrip_loop dt t cx req attempts w sent =
     (case rewindBody req w of
        (Inl p, w1) \<Rightarrow> (Panicked p, w1, sent)
      | (Inr (rewoundReq, err0), w1) \<Rightarrow>
          (case transport dt t rewoundReq w1 of
             ((res, err), w2) \<Rightarrow>
               (case checkRetry t res err of
                  Inl p \<Rightarrow> (Panicked p, w2, sent @ [rewoundReq])
                | Inr retry \<Rightarrow>
                    if \<not> retry then (Returned res err, w2, sent @ [rewoundReq])
                    else if maxAttempts t < attempts + 1
                    then (Returned res err, w2, sent @ [rewoundReq])
                    else
                      (case cx (attempts + 1) (backoff t (attempts + 1)) of
                         Some cerr \<Rightarrow> (Returned None (Some cerr), w2, sent @ [rewoundReq])
                       | None \<Rightarrow>
                           (case drainBody res w2 of
                              (Inl p, w3) \<Rightarrow> (Panicked p, w3, sent @ [rewoundReq])
                            | (Inr (Some derr), w3) \<Rightarrow>
                                (Returned None (Some derr), w3, sent @ [rewoundReq])
                            | (Inr None, w3) \<Rightarrow>
                                RoundTrip_loop dt t cx req (attempts + 1) w3
                                  (sent @ [rewoundReq]))))))"
  by pat_completeness auto
termination
  by (relation "measure (\<lambda>(dt, t, cx, req, attempts, w, sent). nat (maxAttempts t - attempts))")
     auto

declare RoundTrip_loop.simps [simp del]

definition RoundTrip ::
  "'i RoundTripper \<Rightarrow> 'i RetryableTransport \<Rightarrow> nat \<Rightarrow> 'i world \<Rightarrow>
   result \<times> 'i world \<times> nat option list" where
  "RoundTrip dt t req w =
     (case setupRewindBody req w of
        (req1, w1) \<Rightarrow> RoundTrip_loop dt t (ctx (requests w req)) req1 0 w1 [])"

subsection \<open>The default retry predicate\<close>

text \<open>\<open>shouldRetry\<close> of package \<open>http\<close>: \<open>res.StatusCode\<close> panics when \<open>res\<close> is nil.\<close>

definition StatusInternalServerError :: int where
  "StatusInternalServerError = 500"

definition shouldRetry :: CheckRetryFunc where
  "shouldRetry res err =
     (if err \<noteq> None then Inr True
      else (case res of
              None \<Rightarrow> Inl NilPointerDereference
            | Some r \<Rightarrow>
                if StatusCode r \<ge> StatusInternalServerError then Inr True else Inr False))"

subsection \<open>The stream under a body\<close>


subsection \<open>Concrete stores and requests\<close>

text \<open>
  \<open>world0 r content i\<close> is a store with one request \<open>r\<close> at address 0, one stream at
  address 0 holding \<open>content\<close> unread, and one \<open>readTrackingBody\<close> at address 0 with both flags
  false.
\<close>

definition request0 :: "readcloser option \<Rightarrow> (error + stream) option \<Rightarrow> Context \<Rightarrow> Request" where
  "request0 body factory cx =
     \<lparr>Method = ''POST'', URL = ''https://httpbin.org/status/200:0.2,500:0.8'',
      Body = body, GetBody = factory, ctx = cx\<rparr>"

definition world0 :: "Request \<Rightarrow> bytes \<Rightarrow> 'i \<Rightarrow> 'i world" where
  "world0 r content i =
     \<lparr>streams = (\<lambda>a. bytes_NewReader content), nextStream = 1,
      tracked = (\<lambda>a. \<lparr>didRead = False, didClose = False\<rparr>), nextTracked = 1,
      requests = (\<lambda>a. r), nextRequest = 1, istate = i\<rparr>"

definition never :: Context where
  "never k d = None"


text \<open>
  Inner transports and contexts for concrete executions: \<open>answer res err\<close> returns the same
  outcome to every send and touches nothing; \<open>answering code body n\<close> is a retrying
  transport around such an inner transport, with the default retry predicate, a budget of
  \<open>n\<close> and a constant backoff; \<open>defaulting n\<close> is a retrying transport with no wrapped
  transport, which sends through the default one; \<open>bodiless cx\<close> is a store whose request has no body and has
  the context \<open>cx\<close>; \<open>cancelled_from n\<close> is a context that is done during the wait after
  attempt \<open>n\<close> and from then on.
\<close>

definition answer :: "Response option \<Rightarrow> error option \<Rightarrow> 'i RoundTripper" where
  "answer res err p w = ((res, err), w)"

definition status :: "int \<Rightarrow> readcloser option \<Rightarrow> Response" where
  "status code body = \<lparr>StatusCode = code, ResBody = body\<rparr>"

definition answering :: "int \<Rightarrow> readcloser option \<Rightarrow> int \<Rightarrow> unit RetryableTransport" where
  "answering code body n =
     NewRetryableTransport (Some (answer (Some (status code body)) None)) n shouldRetry
       (\<lambda>k. 1000)"

definition defaulting :: "int \<Rightarrow> unit RetryableTransport" where
  "defaulting n = NewRetryableTransport None n shouldRetry (\<lambda>k. 1000)"

definition bodiless :: "Context \<Rightarrow> unit world" where
  "bodiless cx = world0 (request0 None None cx) ''pong'' ()"

definition cancelled_from :: "int \<Rightarrow> Context" where
  "cancelled_from n k d = (if n \<le> k then Some (Err ''context canceled'') else None)"


text \<open>
  \<open>recorder\<close> is an inner transport that reads the body of the request it is sent to the
  end, closes it, and appends the bytes it read to its own state; a nil request counts as an
  empty body. It answers 500 to the first send and 200 to the later ones, with
  \<open>http.NoBody\<close> as the response body. \<open>retrying n\<close> is the transport around it with the
  default retry predicate and a budget of \<open>n\<close>; \<open>posting factory\<close> is the store of a POST
  whose body is a byte reader over the JSON text of the example program, with the given
  \<open>GetBody\<close>.
\<close>

definition capture :: "readcloser option \<Rightarrow> bytes list world \<Rightarrow> bytes list world" where
  "capture body w =
     (case body of
        None \<Rightarrow> w\<lparr>istate := istate w @ [[]]\<rparr>
      | Some b \<Rightarrow>
          (case ReadAll b w of
             ((buf, e), w1) \<Rightarrow>
               (case Close b w1 of (ce, w2) \<Rightarrow> w2\<lparr>istate := istate w2 @ [buf]\<rparr>)))"

definition recorder :: "bytes list RoundTripper" where
  "recorder p w =
     ((Some (status (if istate w = [] then 500 else 200) (Some NoBody)), None),
      (case p of
         None \<Rightarrow> w\<lparr>istate := istate w @ [[]]\<rparr>
       | Some a \<Rightarrow> capture (Body (requests w a)) w))"

definition retrying :: "int \<Rightarrow> bytes list RetryableTransport" where
  "retrying n = NewRetryableTransport (Some recorder) n shouldRetry (\<lambda>k. 1000)"

definition posting :: "(error + stream) option \<Rightarrow> bytes list world" where
  "posting factory =
     world0 (request0 (Some (Plain 0)) factory never) ''{\"name\":\"Nori\"}'' []"


subsection \<open>Request objects that keep their fields\<close>

text \<open>
  \<open>requests_kept n w w'\<close>: the request objects at the addresses below \<open>n\<close> have in \<open>w'\<close> the
  fields they have in \<open>w\<close>, and none of these addresses has become free. An inner transport
  \<open>keeps_requests\<close> when every send leaves the requests that exist so: the contract of
  \<open>http.RoundTripper\<close>, which may consume and close the body of a request and must not modify
  the request otherwise.
\<close>

definition requests_kept :: "nat \<Rightarrow> 'i world \<Rightarrow> 'i world \<Rightarrow> bool" where
  "requests_kept n w w' \<longleftrightarrow> n \<le> nextRequest w' \<and> (\<forall>a<n. requests w' a = requests w a)"

definition keeps_requests :: "'i RoundTripper \<Rightarrow> bool" where
  "keeps_requests rt \<longleftrightarrow> (\<forall>p w. requests_kept (nextRequest w) w (snd (rt p w)))"


subsection \<open>The iterations of a call\<close>

text \<open>
  \<open>reaches dt t cx req st st'\<close>: the loop, started with the counter, the store and the log of
  sends \<open>st\<close>, comes to the head of an iteration with \<open>st'\<close>. It goes from one iteration to the
  next when the retry predicate answers true, the budget is not used up, the timer fires
  before the context is done and \<open>drainBody\<close> returns no error.
\<close>

inductive reaches ::
  "'i RoundTripper \<Rightarrow> 'i RetryableTransport \<Rightarrow> Context \<Rightarrow> nat \<Rightarrow>
   int \<times> 'i world \<times> nat option list \<Rightarrow> int \<times> 'i world \<times> nat option list \<Rightarrow> bool"
  for dt t cx req
  where
    start: "reaches dt t cx req st st"
  | retry:
      "reaches dt t cx req st (attempts, w, sent) \<Longrightarrow>
       rewindBody req w = (Inr (p, e0), w1) \<Longrightarrow>
       transport dt t p w1 = ((res, err), w2) \<Longrightarrow>
       checkRetry t res err = Inr True \<Longrightarrow>
       attempts + 1 \<le> maxAttempts t \<Longrightarrow>
       cx (attempts + 1) (backoff t (attempts + 1)) = None \<Longrightarrow>
       drainBody res w2 = (Inr None, w3) \<Longrightarrow>
       reaches dt t cx req st (attempts + 1, w3, sent @ [p])"

section \<open>Auxiliary facts\<close>

subsection \<open>Reading and closing\<close>

lemma set_didRead_simps [simp]:
  "streams (set_didRead c w) = streams w"
  "nextStream (set_didRead c w) = nextStream w"
  "nextTracked (set_didRead c w) = nextTracked w"
  "requests (set_didRead c w) = requests w"
  "nextRequest (set_didRead c w) = nextRequest w"
  "istate (set_didRead c w) = istate w"
  by (simp_all add: set_didRead_def)

lemma set_didClose_simps [simp]:
  "streams (set_didClose c w) = streams w"
  "nextStream (set_didClose c w) = nextStream w"
  "nextTracked (set_didClose c w) = nextTracked w"
  "requests (set_didClose c w) = requests w"
  "nextRequest (set_didClose c w) = nextRequest w"
  "istate (set_didClose c w) = istate w"
  by (simp_all add: set_didClose_def)

lemma flags_after_set [simp]:
  "didRead (tracked (set_didRead c w) a) = (a = c \<or> didRead (tracked w a))"
  "didClose (tracked (set_didRead c w) a) = didClose (tracked w a)"
  "didClose (tracked (set_didClose c w) a) = (a = c \<or> didClose (tracked w a))"
  "didRead (tracked (set_didClose c w) a) = didRead (tracked w a)"
  by (simp_all add: set_didRead_def set_didClose_def)

lemma Read_frame:
  "requests (snd (Read b n w)) = requests w \<and> nextRequest (snd (Read b n w)) = nextRequest w \<and>
   nextStream (snd (Read b n w)) = nextStream w \<and> nextTracked (snd (Read b n w)) = nextTracked w \<and>
   istate (snd (Read b n w)) = istate w"
  by (induction b arbitrary: w) (simp_all split: prod.splits)

lemma Close_frame:
  "requests (snd (Close b w)) = requests w \<and> nextRequest (snd (Close b w)) = nextRequest w \<and>
   nextStream (snd (Close b w)) = nextStream w \<and> nextTracked (snd (Close b w)) = nextTracked w \<and>
   istate (snd (Close b w)) = istate w"
  by (induction b arbitrary: w) (simp_all split: prod.splits)

lemma ReadAll_frame:
  "requests (snd (ReadAll b w)) = requests w \<and> nextRequest (snd (ReadAll b w)) = nextRequest w \<and>
   nextStream (snd (ReadAll b w)) = nextStream w \<and> nextTracked (snd (ReadAll b w)) = nextTracked w \<and>
   istate (snd (ReadAll b w)) = istate w"
  by (induction b arbitrary: w) (simp_all split: prod.splits)

lemma Read_didRead_mono: "didRead (tracked w a) \<Longrightarrow> didRead (tracked (snd (Read b n w)) a)"
  by (induction b arbitrary: w) (simp_all split: prod.splits)

lemma Read_keeps_didClose: "didClose (tracked (snd (Read b n w)) a) = didClose (tracked w a)"
  by (induction b arbitrary: w) (simp_all split: prod.splits)

lemma Close_keeps_didRead: "didRead (tracked (snd (Close b w)) a) = didRead (tracked w a)"
  by (induction b arbitrary: w) (simp_all split: prod.splits)

lemma Close_didClose_mono: "didClose (tracked w a) \<Longrightarrow> didClose (tracked (snd (Close b w)) a)"
  by (induction b arbitrary: w) (simp_all split: prod.splits)

lemma Read_ignores_flags:
  "fst (Read b n (w\<lparr>tracked := f\<rparr>)) = fst (Read b n w) \<and>
   streams (snd (Read b n (w\<lparr>tracked := f\<rparr>))) = streams (snd (Read b n w))"
  by (induction b arbitrary: w f) (simp_all add: set_didRead_def split: prod.splits)

lemma Close_ignores_flags:
  "fst (Close b (w\<lparr>tracked := f\<rparr>)) = fst (Close b w) \<and>
   streams (snd (Close b (w\<lparr>tracked := f\<rparr>))) = streams (snd (Close b w))"
  by (induction b arbitrary: w f) (simp_all add: set_didClose_def split: prod.splits)

lemma Read_sets_didRead:
  "didRead (tracked (snd (Read (readTrackingBody rc c) n w)) c)"
  by (simp add: Read_didRead_mono)

lemma Close_sets_didClose:
  "didClose (tracked (snd (Close (readTrackingBody rc c) w)) c)"
  by (simp add: Close_didClose_mono)

lemma Read_forwards:
  "fst (Read (readTrackingBody rc c) n w) = fst (Read rc n w) \<and>
   streams (snd (Read (readTrackingBody rc c) n w)) = streams (snd (Read rc n w))"
  by (simp add: set_didRead_def Read_ignores_flags)

lemma Close_forwards:
  "fst (Close (readTrackingBody rc c) w) = fst (Close rc w) \<and>
   streams (snd (Close (readTrackingBody rc c) w)) = streams (snd (Close rc w))"
  by (simp add: set_didClose_def Close_ignores_flags)





lemma loop_step:
  assumes "rewindBody req w = (Inr (p, e0), w1)"
    and "transport dt t p w1 = ((res, err), w2)"
  shows "RoundTrip_loop dt t cx req attempts w sent =
     (case checkRetry t res err of
        Inl pn \<Rightarrow> (Panicked pn, w2, sent @ [p])
      | Inr retry \<Rightarrow>
          if \<not> retry then (Returned res err, w2, sent @ [p])
          else if maxAttempts t < attempts + 1 then (Returned res err, w2, sent @ [p])
          else
            (case cx (attempts + 1) (backoff t (attempts + 1)) of
               Some cerr \<Rightarrow> (Returned None (Some cerr), w2, sent @ [p])
             | None \<Rightarrow>
                 (case drainBody res w2 of
                    (Inl pn, w3) \<Rightarrow> (Panicked pn, w3, sent @ [p])
                  | (Inr (Some derr), w3) \<Rightarrow> (Returned None (Some derr), w3, sent @ [p])
                  | (Inr None, w3) \<Rightarrow>
                      RoundTrip_loop dt t cx req (attempts + 1) w3 (sent @ [p]))))"
  using assms by (subst RoundTrip_loop.simps) simp


subsection \<open>The concrete executions\<close>

lemma rewindBody_bodiless: "rewindBody 0 (bodiless cx) = (Inr (Some 0, None), bodiless cx)"
  by (simp add: rewindBody_def bodiless_def world0_def request0_def)

lemma setupRewindBody_bodiless: "setupRewindBody 0 (bodiless cx) = (0, bodiless cx)"
  by (simp add: setupRewindBody_def bodiless_def world0_def request0_def)

lemma ctx_bodiless: "ctx (requests (bodiless cx) 0) = cx"
  by (simp add: bodiless_def world0_def request0_def)

lemma transport_answering:
  "transport dt (answering code body n) p w = ((Some (status code body), None), w)"
  by (simp add: transport_def answering_def NewRetryableTransport_def answer_def)

lemma checkRetry_answering:
  "checkRetry (answering code body n) (Some (status c b)) None = Inr (500 \<le> c)"
  by (simp add: answering_def NewRetryableTransport_def shouldRetry_def status_def
      StatusInternalServerError_def)

lemma maxAttempts_answering: "maxAttempts (answering code body n) = n"
  by (simp add: answering_def NewRetryableTransport_def)

lemma backoff_answering: "backoff (answering code body n) k = 1000"
  by (simp add: answering_def NewRetryableTransport_def)



subsection \<open>The loop as a whole\<close>

lemma requests_kept_trans:
  "requests_kept n w w1 \<Longrightarrow> requests_kept (nextRequest w1) w1 w2 \<Longrightarrow> requests_kept n w w2"
  by (auto simp: requests_kept_def)

lemma rewindBody_requests_kept: "requests_kept (nextRequest w) w (snd (rewindBody req w))"
  by (simp add: requests_kept_def rewindBody_def wrapRewound_def new_stream_def
      new_readTrackingBody_def new_Request_def split_beta Close_frame ReadAll_frame
      split: option.split readcloser.split sum.split)

lemma drainBody_requests_kept: "requests_kept (nextRequest w) w (snd (drainBody res w))"
  by (simp add: requests_kept_def drainBody_def Copy_Discard_def split_beta Close_frame ReadAll_frame
      split: option.split)

lemma setupRewindBody_requests_kept: "requests_kept (nextRequest w) w (snd (setupRewindBody req w))"
  by (simp add: requests_kept_def setupRewindBody_def new_readTrackingBody_def new_Request_def
      split_beta split: option.split readcloser.split)

lemma rewindBody_after_setup:
  "setupRewindBody req w = (req1, w1) \<Longrightarrow> rewindBody req1 w1 = (Inr (Some req1, None), w1)"
  by (auto simp: setupRewindBody_def rewindBody_def new_readTrackingBody_def new_Request_def
      split: option.splits readcloser.splits)

text \<open>
  A send that returns no response and an error the predicate wants retried: after the wait,
  \<open>drainBody\<close> dereferences the nil response.
\<close>

lemma retry_after_transport_error_panics:
  assumes "rewindBody req w = (Inr (p, e0), w1)"
    and "transport dt t p w1 = ((None, err), w2)"
    and "checkRetry t None err = Inr True"
    and "attempts + 1 \<le> maxAttempts t"
    and "cx (attempts + 1) (backoff t (attempts + 1)) = None"
  shows "RoundTrip_loop dt t cx req attempts w sent =
         (Panicked NilPointerDereference, w2, sent @ [p])"
  using assms(3-5) by (simp add: loop_step [OF assms(1,2)] drainBody_def)

lemma reaches_same_result:
  "reaches dt t cx req st st' \<Longrightarrow>
   (case st of (a, w, s) \<Rightarrow> RoundTrip_loop dt t cx req a w s) =
   (case st' of (a, w, s) \<Rightarrow> RoundTrip_loop dt t cx req a w s)"
proof (induction rule: reaches.induct)
  case (start st)
  show ?case by simp
next
  case (retry st attempts w sent p e0 w1 res err w2 w3)
  then show ?case
    by (simp add: loop_step [OF retry(2,3)])
qed

lemma RoundTrip_last_iteration:
  assumes "setupRewindBody req w = (req1, w1)"
    and "reaches dt t (ctx (requests w req)) req1 (0, w1, []) (attempts, w', sent)"
  shows "RoundTrip dt t req w = RoundTrip_loop dt t (ctx (requests w req)) req1 attempts w' sent"
  using reaches_same_result [OF assms(2)] assms(1) by (simp add: RoundTrip_def)

lemma loop_cases:
  obtains
    (panic) pn w1 where "rewindBody req w = (Inl pn, w1)"
      and "RoundTrip_loop dt t cx req attempts w sent = (Panicked pn, w1, sent)"
  | (stop) p e0 w1 res err w2 r where "rewindBody req w = (Inr (p, e0), w1)"
      and "transport dt t p w1 = ((res, err), w2)"
      and "RoundTrip_loop dt t cx req attempts w sent = (r, w2, sent @ [p])"
  | (drained) p e0 w1 res err w2 r where "rewindBody req w = (Inr (p, e0), w1)"
      and "transport dt t p w1 = ((res, err), w2)"
      and "RoundTrip_loop dt t cx req attempts w sent = (r, snd (drainBody res w2), sent @ [p])"
  | (again) p e0 w1 res err w2 w3 where "rewindBody req w = (Inr (p, e0), w1)"
      and "transport dt t p w1 = ((res, err), w2)"
      and "attempts + 1 \<le> maxAttempts t"
      and "drainBody res w2 = (Inr None, w3)"
      and "RoundTrip_loop dt t cx req attempts w sent =
           RoundTrip_loop dt t cx req (attempts + 1) w3 (sent @ [p])"
proof (cases "rewindBody req w")
  case (Pair x w1)
  show ?thesis
  proof (cases x)
    case (Inl pn)
    have "RoundTrip_loop dt t cx req attempts w sent = (Panicked pn, w1, sent)"
      using Pair Inl by (subst RoundTrip_loop.simps) simp
    then show ?thesis
      using panic [of pn w1] Pair Inl by simp
  next
    case (Inr y)
    obtain p e0 where y: "y = (p, e0)" by (cases y)
    obtain res err w2 where tr: "transport dt t p w1 = ((res, err), w2)"
      by (metis prod.exhaust)
    have rw: "rewindBody req w = (Inr (p, e0), w1)"
      using Pair Inr y by simp
    note step = loop_step [OF rw tr, of cx attempts sent]
    show ?thesis
    proof (cases "drainBody res w2")
      case dr: (Pair z w3)
      show ?thesis
        using step stop [OF rw tr] drained [OF rw tr] again [OF rw tr _ _] dr
        by (auto split: sum.splits option.splits if_splits)
    qed
  qed
qed


lemma loop_sent_length:
  "length (snd (snd (RoundTrip_loop dt t cx req attempts w sent))) \<le>
   length sent + (if attempts < maxAttempts t then nat (maxAttempts t - attempts) + 1 else 1)"
proof (induction "nat (maxAttempts t - attempts)" arbitrary: attempts w sent rule: less_induct)
  case less
  show ?case
  proof (cases rule: loop_cases [of req w dt t cx attempts sent])
    case (panic pn w1)
    then show ?thesis by simp
  next
    case (stop p e0 w1 res err w2 r)
    then show ?thesis by simp
  next
    case (drained p e0 w1 res err w2 r)
    then show ?thesis by simp
  next
    case (again p e0 w1 res err w2 w3)
    have "nat (maxAttempts t - (attempts + 1)) < nat (maxAttempts t - attempts)"
      using again(3) by simp
    from less [OF this, of w3 "sent @ [p]"] again(3,5) show ?thesis
      by (simp split: if_splits)
  qed
qed

lemma loop_requests_kept:
  assumes "keeps_requests (transport dt t)"
  shows "requests_kept (nextRequest w) w (fst (snd (RoundTrip_loop dt t cx req attempts w sent)))"
proof (induction "nat (maxAttempts t - attempts)" arbitrary: attempts w sent rule: less_induct)
  case less
  have inner: "requests_kept (nextRequest w1) w1 w2" if "transport dt t p w1 = (x, w2)" for p w1 x w2
    using assms that by (metis keeps_requests_def snd_conv)
  have sent: "requests_kept (nextRequest w) w w2"
    if "rewindBody req w = (y, w1)" and "transport dt t p w1 = (x, w2)" for y w1 p x w2
  proof -
    have "requests_kept (nextRequest w) w w1"
      using rewindBody_requests_kept [of w req] that(1) by simp
    then show ?thesis
      using inner [OF that(2)] by (rule requests_kept_trans)
  qed
  show ?case
  proof (cases rule: loop_cases [of req w dt t cx attempts sent])
    case (panic pn w1)
    then show ?thesis
      using rewindBody_requests_kept [of w req] by simp
  next
    case (stop p e0 w1 res err w2 r)
    then show ?thesis
      using sent [OF stop(1,2)] by simp
  next
    case (drained p e0 w1 res err w2 r)
    then show ?thesis
      using requests_kept_trans [OF sent [OF drained(1,2)] drainBody_requests_kept [of w2 res]]
      by simp
  next
    case (again p e0 w1 res err w2 w3)
    have "nat (maxAttempts t - (attempts + 1)) < nat (maxAttempts t - attempts)"
      using again(3) by simp
    from less [OF this, of w3 "sent @ [p]"]
    have "requests_kept (nextRequest w3) w3
        (fst (snd (RoundTrip_loop dt t cx req attempts w sent)))"
      using again(5) by simp
    moreover have "requests_kept (nextRequest w) w w3"
      using requests_kept_trans [OF sent [OF again(1,2)] drainBody_requests_kept [of w2 res]]
        again(4) by simp
    ultimately show ?thesis
      by (rule requests_kept_trans [rotated])
  qed
qed

lemmas run_defs =
  RoundTrip_def setupRewindBody_def RoundTrip_loop.simps rewindBody_def wrapRewound_def
  transport_def drainBody_def Copy_Discard_def new_readTrackingBody_def new_Request_def
  new_stream_def set_didRead_def set_didClose_def stream_ReadAll_def stream_Close_def
  bytes_NewReader_def shouldRetry_def StatusInternalServerError_def NewRetryableTransport_def
  world0_def request0_def never_def status_def answer_def answering_def bodiless_def cancelled_from_def
  recorder_def capture_def retrying_def posting_def

lemma replay_with_factory:
  "istate (fst (snd (RoundTrip recorder (retrying 3) 0
      (posting (Some (Inr (bytes_NewReader ''{\"name\":\"Nori\"}''))))))) =
     [''{\"name\":\"Nori\"}'', ''{\"name\":\"Nori\"}'']"
  by (simp add: run_defs)

lemma recorder_keeps_requests: "keeps_requests recorder"
  by (simp add: keeps_requests_def requests_kept_def recorder_def capture_def split_beta
      ReadAll_frame Close_frame split: option.split)


lemma transport_defaulting: "transport (answer res err) (defaulting n) p w = ((res, err), w)"
  by (simp add: transport_def defaulting_def NewRetryableTransport_def answer_def)

lemma checkRetry_defaulting_nil: "checkRetry (defaulting n) None None = Inl NilPointerDereference"
  by (simp add: defaulting_def NewRetryableTransport_def shouldRetry_def)

lemma maxAttempts_defaulting: "maxAttempts (defaulting n) = n"
  by (simp add: defaulting_def NewRetryableTransport_def)

lemma drainBody_no_body: "drainBody (Some (status code None)) w = (Inr None, w)"
  by (simp add: drainBody_def status_def)

lemma reaches_second_attempt:
  assumes "500 \<le> code" and "1 \<le> n" and "cx 1 1000 = None"
  shows "reaches dt (answering code None n) cx 0 (0, bodiless cx', []) (1, bodiless cx', [Some 0])"
proof -
  have c: "checkRetry (answering code None n) (Some (status code None)) None = Inr True"
    using assms(1) by (simp add: checkRetry_answering)
  have m: "0 + 1 \<le> maxAttempts (answering code None n)"
    using assms(2) by (simp add: maxAttempts_answering)
  have d: "cx (0 + 1) (backoff (answering code None n) (0 + 1)) = None"
    using assms(3) by (simp add: backoff_answering)
  have "reaches dt (answering code None n) cx 0 (0, bodiless cx', [])
      (0 + 1, bodiless cx', [] @ [Some 0])"
    by (rule reaches.retry, rule reaches.start, rule rewindBody_bodiless,
        rule transport_answering, rule c, rule m, rule d, rule drainBody_no_body)
  then show ?thesis
    by simp
qed

section \<open>Properties\<close>

text \<open>
  The loop is tail recursive: what a call of \<open>RoundTrip\<close> yields is what its last iteration
  yields. The statements about one attempt below are made for a call of \<open>RoundTrip\<close> and any
  iteration that call \<open>reaches\<close>, the first as well as a later one.
\<close>

text \<open>
  C1, at a failing input. The same request with a \<open>GetBody\<close> that fails: after the first
  send \<open>rewindBody\<close> returns a nil request and the error of the factory; the call with a
  budget of one retry still makes a second send, with the nil request, and returns the 200
  the inner transport answered, not the error.
\<close>

theorem rewind_error_is_dropped:
  "fst (rewindBody 1 (fst (snd (RoundTrip recorder (retrying 0) 0
      (posting (Some (Inl (Err ''body source is gone''))))))))
     = Inr (None, Some (Err ''body source is gone'')) \<and>
   fst (RoundTrip recorder (retrying 1) 0 (posting (Some (Inl (Err ''body source is gone''))))) =
     Returned (Some (status 200 (Some NoBody))) None \<and>
   snd (snd (RoundTrip recorder (retrying 1) 0 (posting (Some (Inl (Err ''body source is gone'')))))) =
     [Some 1, None]"
  by (simp add: run_defs)

text \<open>
  C2. With a budget \<open>N \<ge> 0\<close> a call of \<open>RoundTrip\<close> sends at most \<open>N + 1\<close> requests to the inner
  transport. With \<open>N = 0\<close> it sends exactly one, the one \<open>setupRewindBody\<close> prepared, and
  returns the response and the error of that send whatever the retry predicate answers (when
  the predicate itself panics, so does the call, after that one send).
\<close>

theorem attempts_within_budget:
  "(0 \<le> maxAttempts t \<longrightarrow>
      length (snd (snd (RoundTrip dt t req w))) \<le> nat (maxAttempts t) + 1) \<and>
   (maxAttempts t = 0 \<longrightarrow>
      (case setupRewindBody req w of
         (req1, w1) \<Rightarrow>
           (case transport dt t (Some req1) w1 of
              ((res, err), w2) \<Rightarrow>
                (case checkRetry t res err of
                   Inr verdict \<Rightarrow> RoundTrip dt t req w = (Returned res err, w2, [Some req1])
                 | Inl pn \<Rightarrow> RoundTrip dt t req w = (Panicked pn, w2, [Some req1])))))"
proof (intro conjI impI)
  assume "0 \<le> maxAttempts t"
  then show "length (snd (snd (RoundTrip dt t req w))) \<le> nat (maxAttempts t) + 1"
    using loop_sent_length [of dt t "ctx (requests w req)" "fst (setupRewindBody req w)" 0
        "snd (setupRewindBody req w)" "[]"]
    by (simp add: RoundTrip_def split_beta split: if_splits)
next
  assume zero: "maxAttempts t = 0"
  obtain req1 w1 where su: "setupRewindBody req w = (req1, w1)"
    by (cases "setupRewindBody req w")
  obtain res err w2 where tr: "transport dt t (Some req1) w1 = ((res, err), w2)"
    by (metis prod.exhaust)
  show "case setupRewindBody req w of
         (req1, w1) \<Rightarrow>
           (case transport dt t (Some req1) w1 of
              ((res, err), w2) \<Rightarrow>
                (case checkRetry t res err of
                   Inr verdict \<Rightarrow> RoundTrip dt t req w = (Returned res err, w2, [Some req1])
                 | Inl pn \<Rightarrow> RoundTrip dt t req w = (Panicked pn, w2, [Some req1])))"
    using zero
    by (simp add: su tr RoundTrip_def loop_step [OF rewindBody_after_setup [OF su] tr]
        split: sum.split)
qed

theorem attempts_within_budget_witness:
  "0 \<le> maxAttempts (answering 500 None 0) \<and> maxAttempts (answering 500 None 0) = 0 \<and>
   length (snd (snd (RoundTrip (answer None None) (answering 500 None 0) 0 (bodiless never)))) \<le>
     nat (maxAttempts (answering 500 None 0)) + 1 \<and>
   RoundTrip (answer None None) (answering 500 None 0) 0 (bodiless never) =
     (Returned (Some (status 500 None)) None, bodiless never, [Some 0]) \<and>
   0 \<le> maxAttempts (answering 500 None 2) \<and>
   length (snd (snd (RoundTrip (answer None None) (answering 500 None 2) 0 (bodiless never)))) \<le>
     nat (maxAttempts (answering 500 None 2)) + 1 \<and>
   snd (snd (RoundTrip (answer None None) (answering 500 None 2) 0 (bodiless never))) =
     [Some 0, Some 0, Some 0]"
proof -
  have three: "snd (snd (RoundTrip (answer None None) (answering 500 None 2) 0 (bodiless never))) =
     [Some 0, Some 0, Some 0]"
    by (simp add: run_defs)
  show ?thesis
    using attempts_within_budget [of "answering 500 None 0" "answer None None" 0 "bodiless never"]
      attempts_within_budget [of "answering 500 None 2" "answer None None" 0 "bodiless never"] three
    by (simp add: setupRewindBody_bodiless transport_answering checkRetry_answering maxAttempts_answering)
qed

text \<open>
  C3. At every attempt of a call the retry predicate is applied to the outcome of the send
  before the budget is looked at. When the predicate panics, so does \<open>RoundTrip\<close>, whether
  or not the budget is used up. When it answers false, \<open>RoundTrip\<close> returns that response
  and that error as they are, in the store the send left, whatever the counter and the
  budget. When it answers true and the budget is used up, \<open>RoundTrip\<close> returns the same pair,
  again as it is.
\<close>

theorem decision_before_budget:
  assumes "setupRewindBody req w = (req1, w0)"
    and "reaches dt t (ctx (requests w req)) req1 (0, w0, []) (attempts, wk, sent)"
    and "rewindBody req1 wk = (Inr (p, e0), w1)"
    and "transport dt t p w1 = ((res, err), w2)"
  shows "(checkRetry t res err = Inl pn \<longrightarrow>
            RoundTrip dt t req w = (Panicked pn, w2, sent @ [p])) \<and>
         (checkRetry t res err = Inr False \<longrightarrow>
            RoundTrip dt t req w = (Returned res err, w2, sent @ [p])) \<and>
         (checkRetry t res err = Inr True \<and> maxAttempts t < attempts + 1 \<longrightarrow>
            RoundTrip dt t req w = (Returned res err, w2, sent @ [p]))"
  by (simp add: RoundTrip_last_iteration [OF assms(1,2)] loop_step [OF assms(3,4)])

theorem decision_before_budget_witness:
  "setupRewindBody 0 (bodiless never) = (0, bodiless never) \<and>
   reaches (answer None None) (defaulting 0) (ctx (requests (bodiless never) 0)) 0
     (0, bodiless never, []) (0, bodiless never, []) \<and>
   rewindBody 0 (bodiless never) = (Inr (Some 0, None), bodiless never) \<and>
   transport (answer None None) (defaulting 0) (Some 0) (bodiless never) =
     ((None, None), bodiless never) \<and>
   checkRetry (defaulting 0) None None = Inl NilPointerDereference \<and>
   maxAttempts (defaulting 0) < 0 + 1 \<and>
   RoundTrip (answer None None) (defaulting 0) 0 (bodiless never) =
     (Panicked NilPointerDereference, bodiless never, [Some 0]) \<and>
   reaches (answer None None) (answering 404 None 5) (ctx (requests (bodiless never) 0)) 0
     (0, bodiless never, []) (0, bodiless never, []) \<and>
   transport (answer None None) (answering 404 None 5) (Some 0) (bodiless never) =
     ((Some (status 404 None), None), bodiless never) \<and>
   checkRetry (answering 404 None 5) (Some (status 404 None)) None = Inr False \<and>
   RoundTrip (answer None None) (answering 404 None 5) 0 (bodiless never) =
     (Returned (Some (status 404 None)) None, bodiless never, [Some 0]) \<and>
   reaches (answer None None) (answering 503 None 1) (ctx (requests (bodiless never) 0)) 0
     (0, bodiless never, []) (1, bodiless never, [Some 0]) \<and>
   transport (answer None None) (answering 503 None 1) (Some 0) (bodiless never) =
     ((Some (status 503 None), None), bodiless never) \<and>
   checkRetry (answering 503 None 1) (Some (status 503 None)) None = Inr True \<and>
   maxAttempts (answering 503 None 1) < 1 + 1 \<and>
   RoundTrip (answer None None) (answering 503 None 1) 0 (bodiless never) =
     (Returned (Some (status 503 None)) None, bodiless never, [Some 0, Some 0])"
proof -
  have r0: "reaches (answer None None) (defaulting 0) (ctx (requests (bodiless never) 0)) 0
      (0, bodiless never, []) (0, bodiless never, [])"
    by (rule reaches.start)
  have r1: "reaches (answer None None) (answering 404 None 5) (ctx (requests (bodiless never) 0)) 0
      (0, bodiless never, []) (0, bodiless never, [])"
    by (rule reaches.start)
  have r2: "reaches (answer None None) (answering 503 None 1) (ctx (requests (bodiless never) 0)) 0
      (0, bodiless never, []) (1, bodiless never, [Some 0])"
    by (rule reaches_second_attempt) (simp_all add: ctx_bodiless never_def)
  have p0: "RoundTrip (answer None None) (defaulting 0) 0 (bodiless never) =
      (Panicked NilPointerDereference, bodiless never, [Some 0])"
    using checkRetry_defaulting_nil [of 0]
      decision_before_budget [OF setupRewindBody_bodiless r0 rewindBody_bodiless
        transport_defaulting, of NilPointerDereference]
    by simp
  show ?thesis
    using r0 r1 r2 p0
      decision_before_budget [OF setupRewindBody_bodiless r1 rewindBody_bodiless transport_answering]
      decision_before_budget [OF setupRewindBody_bodiless r2 rewindBody_bodiless transport_answering]
    by (simp add: setupRewindBody_bodiless rewindBody_bodiless transport_answering
        transport_defaulting checkRetry_defaulting_nil maxAttempts_defaulting
        checkRetry_answering maxAttempts_answering)
qed



text \<open>
  C5. At every attempt of a call after which a retry is due and the context is done during
  the backoff wait, \<open>RoundTrip\<close> returns a nil response with \<open>ctx.Err()\<close> as the error, and
  the send of that attempt is the last one of the call.
\<close>

theorem cancel_during_backoff:
  assumes "setupRewindBody req w = (req1, w0)"
    and "reaches dt t (ctx (requests w req)) req1 (0, w0, []) (attempts, wk, sent)"
    and "rewindBody req1 wk = (Inr (p, e0), w1)"
    and "transport dt t p w1 = ((res, err), w2)"
    and "checkRetry t res err = Inr True"
    and "attempts + 1 \<le> maxAttempts t"
    and "ctx (requests w req) (attempts + 1) (backoff t (attempts + 1)) = Some cause"
  shows "fst (RoundTrip dt t req w) = Returned None (Some cause) \<and>
         snd (snd (RoundTrip dt t req w)) = sent @ [p]"
  using assms(5-7)
  by (simp add: RoundTrip_last_iteration [OF assms(1,2)] loop_step [OF assms(3,4)])

theorem cancel_during_backoff_witness:
  "setupRewindBody 0 (bodiless (cancelled_from 2)) = (0, bodiless (cancelled_from 2)) \<and>
   reaches (answer None None) (answering 500 None 3)
     (ctx (requests (bodiless (cancelled_from 2)) 0)) 0
     (0, bodiless (cancelled_from 2), []) (1, bodiless (cancelled_from 2), [Some 0]) \<and>
   rewindBody 0 (bodiless (cancelled_from 2)) = (Inr (Some 0, None), bodiless (cancelled_from 2)) \<and>
   transport (answer None None) (answering 500 None 3) (Some 0) (bodiless (cancelled_from 2)) =
     ((Some (status 500 None), None), bodiless (cancelled_from 2)) \<and>
   checkRetry (answering 500 None 3) (Some (status 500 None)) None = Inr True \<and>
   1 + 1 \<le> maxAttempts (answering 500 None 3) \<and>
   ctx (requests (bodiless (cancelled_from 2)) 0) (1 + 1) (backoff (answering 500 None 3) (1 + 1)) =
     Some (Err ''context canceled'') \<and>
   fst (RoundTrip (answer None None) (answering 500 None 3) 0 (bodiless (cancelled_from 2))) =
     Returned None (Some (Err ''context canceled'')) \<and>
   snd (snd (RoundTrip (answer None None) (answering 500 None 3) 0 (bodiless (cancelled_from 2)))) =
     [Some 0, Some 0]"
proof -
  have r: "reaches (answer None None) (answering 500 None 3)
      (ctx (requests (bodiless (cancelled_from 2)) 0)) 0
      (0, bodiless (cancelled_from 2), []) (1, bodiless (cancelled_from 2), [Some 0])"
    by (rule reaches_second_attempt) (simp_all add: ctx_bodiless cancelled_from_def)
  have c: "checkRetry (answering 500 None 3) (Some (status 500 None)) None = Inr True"
    by (simp add: checkRetry_answering)
  have m: "1 + 1 \<le> maxAttempts (answering 500 None 3)"
    by (simp add: maxAttempts_answering)
  have d: "ctx (requests (bodiless (cancelled_from 2)) 0) (1 + 1)
      (backoff (answering 500 None 3) (1 + 1)) = Some (Err ''context canceled'')"
    by (simp add: ctx_bodiless cancelled_from_def)
  show ?thesis
    using r c m d
      cancel_during_backoff [OF setupRewindBody_bodiless r rewindBody_bodiless
        transport_answering c m d]
    by (simp add: setupRewindBody_bodiless rewindBody_bodiless transport_answering)
qed

text \<open>
  C6, at a failing input. A request without \<open>GetBody\<close> whose body is a byte reader over
  \<open>{"name":"Nori"}\<close>, a budget of one retry, and an inner transport that reads each body to
  its end and answers 500, then 200: the call makes two sends and returns the 200, and the
  bodies the inner transport read are the JSON text on the first send and no byte at all on
  the second.
\<close>

theorem replay_without_factory_is_empty:
  "fst (RoundTrip recorder (retrying 1) 0 (posting None)) =
     Returned (Some (status 200 (Some NoBody))) None \<and>
   snd (snd (RoundTrip recorder (retrying 1) 0 (posting None))) = [Some 1, Some 2] \<and>
   istate (fst (snd (RoundTrip recorder (retrying 1) 0 (posting None)))) =
     [''{\"name\":\"Nori\"}'', []]"
  by (simp add: run_defs)

text \<open>
  C7, in the form that holds. \<open>didRead\<close> is true after every \<open>Read\<close> on a \<open>readTrackingBody\<close>, whether or
  not the call delivered a byte, and \<open>didClose\<close> is true after every \<open>Close\<close>. No \<open>Read\<close> or
  \<open>Close\<close>, on any body, makes a flag that is true false again; a \<open>Read\<close> changes no
  \<open>didClose\<close> and a \<open>Close\<close> changes no \<open>didRead\<close>. A \<open>Read\<close> or \<open>Close\<close> on the wrapper
  returns what the same call on the wrapped stream returns and leaves the stream objects as
  that call leaves them. Building the wrapper reads nothing, and its flags start false.
\<close>

theorem readTrackingBody_flags:
  "didRead (tracked (snd (Read (readTrackingBody rc c) n w)) c) \<and>
   didClose (tracked (snd (Close (readTrackingBody rc c) w)) c) \<and>
   (didRead (tracked w a) \<longrightarrow> didRead (tracked (snd (Read b n w)) a)) \<and>
   (didClose (tracked w a) \<longrightarrow> didClose (tracked (snd (Close b w)) a)) \<and>
   didClose (tracked (snd (Read b n w)) a) = didClose (tracked w a) \<and>
   didRead (tracked (snd (Close b w)) a) = didRead (tracked w a) \<and>
   fst (Read (readTrackingBody rc c) n w) = fst (Read rc n w) \<and>
   streams (snd (Read (readTrackingBody rc c) n w)) = streams (snd (Read rc n w)) \<and>
   fst (Close (readTrackingBody rc c) w) = fst (Close rc w) \<and>
   streams (snd (Close (readTrackingBody rc c) w)) = streams (snd (Close rc w)) \<and>
   streams (snd (new_readTrackingBody rc w)) = streams w \<and>
   tracked (snd (new_readTrackingBody rc w)) (nextTracked w) =
     \<lparr>didRead = False, didClose = False\<rparr>"
proof -
  have wrap: "streams (snd (new_readTrackingBody rc w)) = streams w \<and>
      tracked (snd (new_readTrackingBody rc w)) (nextTracked w) =
        \<lparr>didRead = False, didClose = False\<rparr>"
    by (simp add: new_readTrackingBody_def)
  show ?thesis
    using Read_sets_didRead [of rc c n w] Close_sets_didClose [of rc c w]
      Read_didRead_mono [of w a b n] Close_didClose_mono [of w a b]
      Read_keeps_didClose [of b n w a] Close_keeps_didRead [of b w a]
      Read_forwards [of rc c n w] Close_forwards [of rc c w] wrap
    by blast
qed

theorem readTrackingBody_flags_witness:
  "didRead (tracked (set_didClose 0 (set_didRead 0 (world0 (request0 None None never) ''Nori'' ()))) 0) \<and>
   didClose (tracked (set_didClose 0 (set_didRead 0 (world0 (request0 None None never) ''Nori'' ()))) 0) \<and>
   didRead (tracked (snd (Read (readTrackingBody (Plain 0) 0) 2
      (set_didClose 0 (set_didRead 0 (world0 (request0 None None never) ''Nori'' ()))))) 0) \<and>
   didClose (tracked (snd (Close (readTrackingBody (Plain 0) 0)
      (set_didClose 0 (set_didRead 0 (world0 (request0 None None never) ''Nori'' ()))))) 0) \<and>
   fst (Read (readTrackingBody (Plain 0) 0) 2
      (set_didClose 0 (set_didRead 0 (world0 (request0 None None never) ''Nori'' ())))) =
     (''No'', None)"
  using readTrackingBody_flags [of "Plain 0" 0 2
      "set_didClose 0 (set_didRead 0 (world0 (request0 None None never) ''Nori'' ()))" 0
      "readTrackingBody (Plain 0) 0"]
  by (simp add: world0_def bytes_NewReader_def stream_Read_def)

text \<open>
  C7 as the specification words it ties \<open>didRead\<close> to a byte having been read. A \<open>Read\<close> on a
  wrapper around a stream at its end returns no byte and still sets the flag, which was
  false before.
\<close>

theorem didRead_without_bytes_counterexample:
  "\<not> didRead (tracked (world0 (request0 None None never) [] ()) 0) \<and>
   \<not> (didRead (tracked (snd (Read (readTrackingBody (Plain 0) 0) 8
           (world0 (request0 None None never) [] ()))) 0)
      \<longleftrightarrow> fst (fst (Read (readTrackingBody (Plain 0) 0) 8
           (world0 (request0 None None never) [] ()))) \<noteq> [])"
  by (simp add: world0_def bytes_NewReader_def stream_Read_def set_didRead_def)

text \<open>
  C8. When the inner transport keeps the request objects it is handed, every request object
  that exists when \<open>RoundTrip\<close> is called, the caller's among them, has all its fields
  unchanged when the call returns. The request \<open>setupRewindBody\<close> returns is the caller's own
  or a new object, and so is every request \<open>rewindBody\<close> returns.
\<close>

theorem caller_request_not_mutated:
  assumes "keeps_requests (transport dt t)"
    and "req < nextRequest w"
  shows "requests (fst (snd (RoundTrip dt t req w))) req = requests w req \<and>
         (\<forall>a<nextRequest w. requests (fst (snd (RoundTrip dt t req w))) a = requests w a) \<and>
         (fst (setupRewindBody req w) = req \<or> nextRequest w \<le> fst (setupRewindBody req w)) \<and>
         (\<forall>q e. fst (rewindBody req w) = Inr (Some q, e) \<longrightarrow> q = req \<or> nextRequest w \<le> q)"
proof -
  have "requests_kept (nextRequest w) w (fst (snd (RoundTrip dt t req w)))"
    using requests_kept_trans [OF setupRewindBody_requests_kept [of w req]
        loop_requests_kept [OF assms(1), of "snd (setupRewindBody req w)" "ctx (requests w req)"
          "fst (setupRewindBody req w)" 0 "[]"]]
    by (simp add: RoundTrip_def split_beta)
  moreover have "fst (setupRewindBody req w) = req \<or> nextRequest w \<le> fst (setupRewindBody req w)"
    by (simp add: setupRewindBody_def new_readTrackingBody_def new_Request_def split_beta
        split: option.split readcloser.split)
  moreover have "\<forall>q e. fst (rewindBody req w) = Inr (Some q, e) \<longrightarrow> q = req \<or> nextRequest w \<le> q"
    by (simp add: rewindBody_def wrapRewound_def new_stream_def
      new_readTrackingBody_def new_Request_def split_beta Close_frame ReadAll_frame
      split: option.split readcloser.split sum.split)
  ultimately show ?thesis
    using assms(2) by (simp add: requests_kept_def)
qed


theorem caller_request_not_mutated_witness:
  "keeps_requests (transport recorder (retrying 1)) \<and>
   0 < nextRequest (posting None) \<and>
   requests (fst (snd (RoundTrip recorder (retrying 1) 0 (posting None)))) 0 =
     requests (posting None) 0 \<and>
   Body (requests (posting None) 0) = Some (Plain 0) \<and>
   snd (snd (RoundTrip recorder (retrying 1) 0 (posting None))) = [Some 1, Some 2]"
proof -
  have k: "keeps_requests (transport recorder (retrying 1))"
    using recorder_keeps_requests by (simp add: transport_def retrying_def NewRetryableTransport_def)
  have lt: "0 < nextRequest (posting None)"
    by (simp add: posting_def world0_def)
  have b: "Body (requests (posting None) 0) = Some (Plain 0)"
    by (simp add: posting_def world0_def request0_def)
  have s: "snd (snd (RoundTrip recorder (retrying 1) 0 (posting None))) = [Some 1, Some 2]"
    by (simp add: run_defs)
  show ?thesis
    using caller_request_not_mutated [OF k lt] k lt b s by simp
qed

text \<open>
  C9. The default retry predicate answers true whenever the error is non-nil; with a nil
  error and a response it answers true exactly when the status code is at least 500, so
  every 4xx status is terminal.
\<close>

theorem shouldRetry_default:
  "shouldRetry res (Some e) = Inr True \<and>
   shouldRetry (Some r) None = Inr (500 \<le> StatusCode r) \<and>
   (400 \<le> StatusCode r \<and> StatusCode r < 500 \<longrightarrow> shouldRetry (Some r) None = Inr False)"
  by (simp add: shouldRetry_def StatusInternalServerError_def)

theorem shouldRetry_default_witness:
  "(400::int) \<le> 404 \<and> (404::int) < 500 \<and>
   shouldRetry (Some \<lparr>StatusCode = 404, ResBody = None\<rparr>) None = Inr False"
  using shouldRetry_default [of None EOF "\<lparr>StatusCode = 404, ResBody = None\<rparr>"]
  by simp

text \<open>
  C10. At every attempt of a call after which the context is done during the backoff wait,
  \<open>RoundTrip\<close> returns in the store the send left: no stream, and so not the body of the
  response just received, has been read or closed since.
\<close>

theorem cancel_leaves_response_body:
  assumes "setupRewindBody req w = (req1, w0)"
    and "reaches dt t (ctx (requests w req)) req1 (0, w0, []) (attempts, wk, sent)"
    and "rewindBody req1 wk = (Inr (p, e0), w1)"
    and "transport dt t p w1 = ((res, err), w2)"
    and "checkRetry t res err = Inr True"
    and "attempts + 1 \<le> maxAttempts t"
    and "ctx (requests w req) (attempts + 1) (backoff t (attempts + 1)) = Some cause"
  shows "fst (snd (RoundTrip dt t req w)) = w2 \<and>
         unread (streams (fst (snd (RoundTrip dt t req w))) s) = unread (streams w2 s) \<and>
         closes (streams (fst (snd (RoundTrip dt t req w))) s) = closes (streams w2 s)"
  using assms(5-7)
  by (simp add: RoundTrip_last_iteration [OF assms(1,2)] loop_step [OF assms(3,4)])

theorem cancel_leaves_response_body_witness:
  "setupRewindBody 0 (bodiless (cancelled_from 1)) = (0, bodiless (cancelled_from 1)) \<and>
   reaches (answer None None) (answering 502 (Some (Plain 0)) 1)
     (ctx (requests (bodiless (cancelled_from 1)) 0)) 0
     (0, bodiless (cancelled_from 1), []) (0, bodiless (cancelled_from 1), []) \<and>
   rewindBody 0 (bodiless (cancelled_from 1)) = (Inr (Some 0, None), bodiless (cancelled_from 1)) \<and>
   transport (answer None None) (answering 502 (Some (Plain 0)) 1) (Some 0)
       (bodiless (cancelled_from 1)) =
     ((Some (status 502 (Some (Plain 0))), None), bodiless (cancelled_from 1)) \<and>
   checkRetry (answering 502 (Some (Plain 0)) 1) (Some (status 502 (Some (Plain 0)))) None =
     Inr True \<and>
   0 + 1 \<le> maxAttempts (answering 502 (Some (Plain 0)) 1) \<and>
   ctx (requests (bodiless (cancelled_from 1)) 0) (0 + 1)
       (backoff (answering 502 (Some (Plain 0)) 1) (0 + 1)) =
     Some (Err ''context canceled'') \<and>
   unread (streams (fst (snd (RoundTrip (answer None None) (answering 502 (Some (Plain 0)) 1) 0
     (bodiless (cancelled_from 1))))) 0) = ''pong'' \<and>
   closes (streams (fst (snd (RoundTrip (answer None None) (answering 502 (Some (Plain 0)) 1) 0
     (bodiless (cancelled_from 1))))) 0) = 0"
proof -
  have r: "reaches (answer None None) (answering 502 (Some (Plain 0)) 1)
      (ctx (requests (bodiless (cancelled_from 1)) 0)) 0
      (0, bodiless (cancelled_from 1), []) (0, bodiless (cancelled_from 1), [])"
    by (rule reaches.start)
  have c: "checkRetry (answering 502 (Some (Plain 0)) 1) (Some (status 502 (Some (Plain 0)))) None
      = Inr True"
    by (simp add: checkRetry_answering)
  have m: "0 + 1 \<le> maxAttempts (answering 502 (Some (Plain 0)) 1)"
    by (simp add: maxAttempts_answering)
  have d: "ctx (requests (bodiless (cancelled_from 1)) 0) (0 + 1)
      (backoff (answering 502 (Some (Plain 0)) 1) (0 + 1)) = Some (Err ''context canceled'')"
    by (simp add: ctx_bodiless cancelled_from_def)
  have b: "unread (streams (bodiless (cancelled_from 1)) 0) = ''pong'' \<and>
      closes (streams (bodiless (cancelled_from 1)) 0) = 0"
    by (simp add: bodiless_def world0_def bytes_NewReader_def)
  show ?thesis
    using r c m d b
      cancel_leaves_response_body [OF setupRewindBody_bodiless r rewindBody_bodiless
        transport_answering c m d, of 0]
    by (simp add: setupRewindBody_bodiless rewindBody_bodiless transport_answering)
qed

end
